theory Spec2Isabelle
  imports Main
begin

section \<open>Vulnerability database clients (package detector)\<close>

subsection \<open>Data\<close>

text \<open>
  The five knowledge bases. In the source each has a driver interface of its own
  (\<open>cvedb.DB\<close>, \<open>ovaldb.DB\<close>, \<open>gostdb.DB\<close>, \<open>exploitdb.DB\<close>, \<open>metasploitdb.DB\<close>);
  a value of such an interface is either nil or a driver, modelled as
  \<open>handle option\<close>.
\<close>

datatype db = Cve | Oval | Gost | Exploit | Metasploit

type_synonym handle = nat

text \<open>
  Go errors. \<open>DriverError\<close> is an error made by an external library; \<open>Errorf\<close> is
  \<open>xerrors.Errorf\<close> with its format string and its operands kept as they are written in
  the source (the format string is not interpreted).
\<close>

datatype error = DriverError string | Errorf string "arg list"
  and arg = ArgS string | ArgE error

text \<open>
  The configuration of one database (\<open>config.GoCveDictConf\<close>, \<open>config.GovalDictConf\<close>,
  \<open>config.GostConf\<close>, \<open>config.ExploitConf\<close>, \<open>config.MetasploitConf\<close>). The types and
  their method \<open>IsFetchViaHTTP()\<close> belong to package config: the record has the three
  fields the detector reads, and the result of \<open>IsFetchViaHTTP()\<close> is a parameter of
  the model, taken as a fourth field.
\<close>

record DictConf =
  Type :: string
  URL :: string
  SQLite3Path :: string
  IsFetchViaHTTP :: bool

record DBClientConf =
  CveDictCnf :: DictConf
  OvalDictCnf :: DictConf
  GostCnf :: DictConf
  ExploitCnf :: DictConf
  MetasploitCnf :: DictConf
  DebugSQL :: bool

record DBClient =
  CveDB :: "handle option"
  OvalDB :: "handle option"
  GostDB :: "handle option"
  ExploitDB :: "handle option"
  MetasploitDB :: "handle option"

text \<open>What a driver's \<open>NewDB\<close> and a factory return: \<open>(driver, locked, err)\<close>.\<close>

type_synonym opened = "handle option \<times> bool \<times> error option"

text \<open>
  The world outside the package: the file system (\<open>os_IsNotExist E p\<close> is the value of
  \<open>os.IsNotExist(err)\<close> for the \<open>err\<close> of \<open>os.Stat(p)\<close>) and the five driver libraries,
  each with the arguments the source passes.
\<close>

record env =
  os_IsNotExist :: "string \<Rightarrow> bool"
  cvedb_NewDB :: "string \<Rightarrow> string \<Rightarrow> bool \<Rightarrow> opened"
  ovaldb_NewDB :: "string \<Rightarrow> string \<Rightarrow> string \<Rightarrow> bool \<Rightarrow> opened"
  gostdb_NewDB :: "string \<Rightarrow> string \<Rightarrow> bool \<Rightarrow> opened"
  exploitdb_NewDB :: "string \<Rightarrow> string \<Rightarrow> bool \<Rightarrow> opened"
  metasploitdb_NewDB :: "string \<Rightarrow> string \<Rightarrow> bool \<Rightarrow> bool \<Rightarrow> opened"
  cvedb_CloseDB :: "handle \<Rightarrow> error option"
  ovaldb_CloseDB :: "handle \<Rightarrow> error option"

text \<open>
  The effects of a run, in order: the messages logged, the calls of \<open>os.Stat\<close>, the calls
  of a driver's \<open>NewDB\<close> (database, type, path, debug flag) and of a driver's \<open>CloseDB\<close>.
  \<open>Returned k r\<close> is bookkeeping of the model and no effect of the program: it marks
  the point where \<open>NewDBClient\<close> has received the result \<open>r\<close> from the factory of \<open>k\<close>.
\<close>

datatype event =
    Debugf string "arg list"
  | Warnf string "arg list"
  | Stat string
  | DriverNewDB db string string bool
  | DriverCloseDB db handle
  | Returned db opened

subsection \<open>The factories\<close>

text \<open>The advisories logged when a sqlite3 file is missing (the format strings).\<close>

definition cvedb_not_found :: string where
  "cvedb_not_found = ''--cvedb-path=%s file not found. [CPE-scan](https://vuls.io/docs/en/usage-scan-non-os-packages.html#cpe-scan) needs cve-dictionary. if you specify cpe in config.toml, fetch cve-dictionary before reporting. For details, see `https://github.com/kotakanbe/go-cve-dictionary#deploy-go-cve-dictionary`''"

definition ovaldb_not_found :: string where
  "ovaldb_not_found = ''--ovaldb-path=%s file not found''"

definition gostdb_not_found :: string where
  "gostdb_not_found = ''--gostdb-path=%s file not found. Vuls can detect `patch-not-released-CVE-ID` using gost if the scan target server is Debian, RHEL or CentOS, For details, see `https://github.com/knqyf263/gost#fetch-redhat`''"

definition exploitdb_not_found :: string where
  "exploitdb_not_found = ''--exploitdb-path=%s file not found. Fetch go-exploit-db before reporting if you want to display exploit codes of detected CVE-IDs. For details, see `https://github.com/vulsio/go-exploitdb`''"

definition msfdb_not_found :: string where
  "msfdb_not_found = ''--msfdb-path=%s file not found. Fetch go-msfdb before reporting if you want to display metasploit modules of detected CVE-IDs. For details, see `https://github.com/takuzoo3868/go-msfdb`''"

text \<open>
  \<open>NewCveDB\<close>. The part after the existence check (the call of the driver and the
  handling of its result) is \<open>NewCveDB_open\<close>, reached with the path chosen before.
\<close>

definition NewCveDB_open :: "env \<Rightarrow> DBClientConf \<Rightarrow> string \<Rightarrow> event list \<Rightarrow> opened \<times> event list" where
  "NewCveDB_open E cnf path log =
    (let ty = Type (CveDictCnf cnf);
         log' = log @ [Debugf ''Open cve-dictionary db (%s): %s'' [ArgS ty, ArgS path],
                       DriverNewDB Cve ty path (DebugSQL cnf)]
     in case cvedb_NewDB E ty path (DebugSQL cnf) of
          (driver, locked, Some err) \<Rightarrow>
            ((None, locked,
              Some (Errorf ''Failed to init CVE DB. err: %w, path: %s'' [ArgE err, ArgS path])), log')
        | (driver, locked, None) \<Rightarrow> ((driver, False, None), log'))"

definition NewCveDB :: "env \<Rightarrow> DBClientConf \<Rightarrow> event list \<Rightarrow> opened \<times> event list" where
  "NewCveDB E cnf log =
    (if IsFetchViaHTTP (CveDictCnf cnf) then ((None, False, None), log)
     else
       let log1 = log @ [Debugf ''open cve-dictionary db (%s)'' [ArgS (Type (CveDictCnf cnf))]]
       in if Type (CveDictCnf cnf) = ''sqlite3'' then
            let path = SQLite3Path (CveDictCnf cnf);
                log2 = log1 @ [Stat path]
            in if os_IsNotExist E path
               then ((None, False, None), log2 @ [Warnf cvedb_not_found [ArgS path]])
               else NewCveDB_open E cnf path log2
          else NewCveDB_open E cnf (URL (CveDictCnf cnf)) log1)"

text \<open>\<open>NewOvalDB\<close>: the driver is called with an empty first argument.\<close>

definition NewOvalDB_open :: "env \<Rightarrow> DBClientConf \<Rightarrow> string \<Rightarrow> event list \<Rightarrow> opened \<times> event list" where
  "NewOvalDB_open E cnf path log =
    (let ty = Type (OvalDictCnf cnf);
         log' = log @ [Debugf ''Open oval-dictionary db (%s): %s'' [ArgS ty, ArgS path],
                       DriverNewDB Oval ty path (DebugSQL cnf)]
     in case ovaldb_NewDB E [] ty path (DebugSQL cnf) of
          (driver, locked, Some err) \<Rightarrow>
            (let err' = Errorf ''Failed to new OVAL DB. err: %w'' [ArgE err]
             in if locked then ((None, True, Some err'), log')
                else ((None, False, Some err'), log'))
        | (driver, locked, None) \<Rightarrow> ((driver, False, None), log'))"

definition NewOvalDB :: "env \<Rightarrow> DBClientConf \<Rightarrow> event list \<Rightarrow> opened \<times> event list" where
  "NewOvalDB E cnf log =
    (if IsFetchViaHTTP (OvalDictCnf cnf) then ((None, False, None), log)
     else if Type (OvalDictCnf cnf) = ''sqlite3'' then
       let path = SQLite3Path (OvalDictCnf cnf);
           log1 = log @ [Stat path]
       in if os_IsNotExist E path
          then ((None, False, None), log1 @ [Warnf ovaldb_not_found [ArgS path]])
          else NewOvalDB_open E cnf path log1
     else NewOvalDB_open E cnf (URL (OvalDictCnf cnf)) log)"

text \<open>\<open>NewGostDB\<close>: an error of the driver is wrapped only when the database is locked.\<close>

definition NewGostDB_open :: "env \<Rightarrow> DBClientConf \<Rightarrow> string \<Rightarrow> event list \<Rightarrow> opened \<times> event list" where
  "NewGostDB_open E cnf path log =
    (let ty = Type (GostCnf cnf);
         log' = log @ [Debugf ''Open gost db (%s): %s'' [ArgS ty, ArgS path],
                       DriverNewDB Gost ty path (DebugSQL cnf)]
     in case gostdb_NewDB E ty path (DebugSQL cnf) of
          (driver, locked, Some err) \<Rightarrow>
            (if locked
             then ((None, True, Some (Errorf ''gostDB is locked. err: %w'' [ArgE err])), log')
             else ((None, False, Some err), log'))
        | (driver, locked, None) \<Rightarrow> ((driver, False, None), log'))"

definition NewGostDB :: "env \<Rightarrow> DBClientConf \<Rightarrow> event list \<Rightarrow> opened \<times> event list" where
  "NewGostDB E cnf log =
    (if IsFetchViaHTTP (GostCnf cnf) then ((None, False, None), log)
     else if Type (GostCnf cnf) = ''sqlite3'' then
       let path = SQLite3Path (GostCnf cnf);
           log1 = log @ [Stat path]
       in if os_IsNotExist E path
          then ((None, False, None), log1 @ [Warnf gostdb_not_found [ArgS path]])
          else NewGostDB_open E cnf path log1
     else NewGostDB_open E cnf (URL (GostCnf cnf)) log)"

text \<open>\<open>NewExploitDB\<close>.\<close>

definition NewExploitDB_open :: "env \<Rightarrow> DBClientConf \<Rightarrow> string \<Rightarrow> event list \<Rightarrow> opened \<times> event list" where
  "NewExploitDB_open E cnf path log =
    (let ty = Type (ExploitCnf cnf);
         log' = log @ [Debugf ''Open exploit db (%s): %s'' [ArgS ty, ArgS path],
                       DriverNewDB Exploit ty path (DebugSQL cnf)]
     in case exploitdb_NewDB E ty path (DebugSQL cnf) of
          (driver, locked, Some err) \<Rightarrow>
            (if locked
             then ((None, True, Some (Errorf ''exploitDB is locked. err: %w'' [ArgE err])), log')
             else ((None, False, Some err), log'))
        | (driver, locked, None) \<Rightarrow> ((driver, False, None), log'))"

definition NewExploitDB :: "env \<Rightarrow> DBClientConf \<Rightarrow> event list \<Rightarrow> opened \<times> event list" where
  "NewExploitDB E cnf log =
    (if IsFetchViaHTTP (ExploitCnf cnf) then ((None, False, None), log)
     else if Type (ExploitCnf cnf) = ''sqlite3'' then
       let path = SQLite3Path (ExploitCnf cnf);
           log1 = log @ [Stat path]
       in if os_IsNotExist E path
          then ((None, False, None), log1 @ [Warnf exploitdb_not_found [ArgS path]])
          else NewExploitDB_open E cnf path log1
     else NewExploitDB_open E cnf (URL (ExploitCnf cnf)) log)"

text \<open>\<open>NewMetasploitDB\<close>: the driver is called with a last argument \<open>false\<close>.\<close>

definition NewMetasploitDB_open :: "env \<Rightarrow> DBClientConf \<Rightarrow> string \<Rightarrow> event list \<Rightarrow> opened \<times> event list" where
  "NewMetasploitDB_open E cnf path log =
    (let ty = Type (MetasploitCnf cnf);
         log' = log @ [Debugf ''Open metasploit db (%s): %s'' [ArgS ty, ArgS path],
                       DriverNewDB Metasploit ty path (DebugSQL cnf)]
     in case metasploitdb_NewDB E ty path (DebugSQL cnf) False of
          (driver, locked, Some err) \<Rightarrow>
            (if locked
             then ((None, True, Some (Errorf ''metasploitDB is locked. err: %w'' [ArgE err])), log')
             else ((None, False, Some err), log'))
        | (driver, locked, None) \<Rightarrow> ((driver, False, None), log'))"

definition NewMetasploitDB :: "env \<Rightarrow> DBClientConf \<Rightarrow> event list \<Rightarrow> opened \<times> event list" where
  "NewMetasploitDB E cnf log =
    (if IsFetchViaHTTP (MetasploitCnf cnf) then ((None, False, None), log)
     else if Type (MetasploitCnf cnf) = ''sqlite3'' then
       let path = SQLite3Path (MetasploitCnf cnf);
           log1 = log @ [Stat path]
       in if os_IsNotExist E path
          then ((None, False, None), log1 @ [Warnf msfdb_not_found [ArgS path]])
          else NewMetasploitDB_open E cnf path log1
     else NewMetasploitDB_open E cnf (URL (MetasploitCnf cnf)) log)"

subsection \<open>The orchestrator\<close>

text \<open>
  \<open>NewDBClient\<close> calls the five factories in order. After each call the result is
  recorded (\<open>Returned\<close>); then a locked result ends the run with an error, an error of the
  CVE factory ends the run with that error, and an error of one of the other four
  factories is logged as a warning.
\<close>

definition NewDBClient ::
    "env \<Rightarrow> DBClientConf \<Rightarrow> event list \<Rightarrow> (DBClient option \<times> bool \<times> error option) \<times> event list" where
  "NewDBClient E cnf log =
    (case NewCveDB E cnf log of ((cveDriver, locked1, err1), l1) \<Rightarrow>
     let log1 = l1 @ [Returned Cve (cveDriver, locked1, err1)] in
     if locked1 then
       ((None, True, Some (Errorf ''CveDB is locked: %s'' [ArgS (SQLite3Path (OvalDictCnf cnf))])), log1)
     else if err1 \<noteq> None then ((None, locked1, err1), log1)
     else
     case NewOvalDB E cnf log1 of ((ovaldb, locked2, err2), l2) \<Rightarrow>
     let log2 = l2 @ [Returned Oval (ovaldb, locked2, err2)] in
     if locked2 then
       ((None, True, Some (Errorf ''OvalDB is locked: %s'' [ArgS (SQLite3Path (OvalDictCnf cnf))])), log2)
     else
     let log2' = (case err2 of
                    Some e \<Rightarrow> log2 @ [Warnf ''Unable to use OvalDB: %s, err: %+v''
                                         [ArgS (SQLite3Path (OvalDictCnf cnf)), ArgE e]]
                  | None \<Rightarrow> log2) in
     case NewGostDB E cnf log2' of ((gostdb, locked3, err3), l3) \<Rightarrow>
     let log3 = l3 @ [Returned Gost (gostdb, locked3, err3)] in
     if locked3 then
       ((None, True, Some (Errorf ''gostDB is locked: %s'' [ArgS (SQLite3Path (GostCnf cnf))])), log3)
     else
     let log3' = (case err3 of
                    Some e \<Rightarrow> log3 @ [Warnf ''Unable to use gostDB: %s, err: %+v''
                                         [ArgS (SQLite3Path (GostCnf cnf)), ArgE e]]
                  | None \<Rightarrow> log3) in
     case NewExploitDB E cnf log3' of ((exploitdb, locked4, err4), l4) \<Rightarrow>
     let log4 = l4 @ [Returned Exploit (exploitdb, locked4, err4)] in
     if locked4 then
       ((None, True, Some (Errorf ''exploitDB is locked: %s'' [ArgS (SQLite3Path (ExploitCnf cnf))])), log4)
     else
     let log4' = (case err4 of
                    Some e \<Rightarrow> log4 @ [Warnf ''Unable to use exploitDB: %s, err: %+v''
                                         [ArgS (SQLite3Path (ExploitCnf cnf)), ArgE e]]
                  | None \<Rightarrow> log4) in
     case NewMetasploitDB E cnf log4' of ((metasploitdb, locked5, err5), l5) \<Rightarrow>
     let log5 = l5 @ [Returned Metasploit (metasploitdb, locked5, err5)] in
     if locked5 then
       ((None, True, Some (Errorf ''metasploitDB is locked: %s'' [ArgS (SQLite3Path (MetasploitCnf cnf))])), log5)
     else
     let log5' = (case err5 of
                    Some e \<Rightarrow> log5 @ [Warnf ''Unable to use metasploitDB: %s, err: %+v''
                                         [ArgS (SQLite3Path (MetasploitCnf cnf)), ArgE e]]
                  | None \<Rightarrow> log5) in
     ((Some \<lparr>CveDB = cveDriver, OvalDB = ovaldb, GostDB = gostdb,
             ExploitDB = exploitdb, MetasploitDB = metasploitdb\<rparr>, False, None), log5'))"

subsection \<open>Closing\<close>

text \<open>
  \<open>DBClient.CloseDB\<close> has a value receiver and assigns to no field: it returns its list of
  errors only (here with the log). It closes the CVE and the OVAL driver; for the other
  three the source has the comment \<open>//TODO CloseDB gost, exploitdb, metasploit\<close>.
\<close>

definition CloseDB :: "env \<Rightarrow> DBClient \<Rightarrow> event list \<Rightarrow> error list \<times> event list" where
  "CloseDB E d log =
    (let (errs1, log1) =
           (case CveDB d of
              None \<Rightarrow> ([], log)
            | Some h \<Rightarrow>
                (case cvedb_CloseDB E h of
                   Some err \<Rightarrow> ([Errorf ''Failed to close cveDB. err: %+v'' [ArgE err]],
                                log @ [DriverCloseDB Cve h])
                 | None \<Rightarrow> ([], log @ [DriverCloseDB Cve h])));
         (errs2, log2) =
           (case OvalDB d of
              None \<Rightarrow> (errs1, log1)
            | Some h \<Rightarrow>
                (case ovaldb_CloseDB E h of
                   Some err \<Rightarrow> (errs1 @ [Errorf ''Failed to close ovalDB. err: %+v'' [ArgE err]],
                                log1 @ [DriverCloseDB Oval h])
                 | None \<Rightarrow> (errs1, log1 @ [DriverCloseDB Oval h])))
     in (errs2, log2))"

subsection \<open>Notions used to state the properties\<close>

text \<open>The factory of a database, the call of its driver, its configuration, its slot.\<close>

fun factory :: "db \<Rightarrow> env \<Rightarrow> DBClientConf \<Rightarrow> event list \<Rightarrow> opened \<times> event list" where
  "factory Cve = NewCveDB"
| "factory Oval = NewOvalDB"
| "factory Gost = NewGostDB"
| "factory Exploit = NewExploitDB"
| "factory Metasploit = NewMetasploitDB"

fun driver_NewDB :: "env \<Rightarrow> db \<Rightarrow> string \<Rightarrow> string \<Rightarrow> bool \<Rightarrow> opened" where
  "driver_NewDB E Cve ty path dbg = cvedb_NewDB E ty path dbg"
| "driver_NewDB E Oval ty path dbg = ovaldb_NewDB E [] ty path dbg"
| "driver_NewDB E Gost ty path dbg = gostdb_NewDB E ty path dbg"
| "driver_NewDB E Exploit ty path dbg = exploitdb_NewDB E ty path dbg"
| "driver_NewDB E Metasploit ty path dbg = metasploitdb_NewDB E ty path dbg False"

fun conf_of :: "db \<Rightarrow> DBClientConf \<Rightarrow> DictConf" where
  "conf_of Cve = CveDictCnf"
| "conf_of Oval = OvalDictCnf"
| "conf_of Gost = GostCnf"
| "conf_of Exploit = ExploitCnf"
| "conf_of Metasploit = MetasploitCnf"

fun slot :: "db \<Rightarrow> DBClient \<Rightarrow> handle option" where
  "slot Cve = CveDB"
| "slot Oval = OvalDB"
| "slot Gost = GostDB"
| "slot Exploit = ExploitDB"
| "slot Metasploit = MetasploitDB"

fun not_found :: "db \<Rightarrow> string" where
  "not_found Cve = cvedb_not_found"
| "not_found Oval = ovaldb_not_found"
| "not_found Gost = gostdb_not_found"
| "not_found Exploit = exploitdb_not_found"
| "not_found Metasploit = msfdb_not_found"

text \<open>The events that are a call of a driver's \<open>CloseDB\<close>.\<close>

fun is_close :: "event \<Rightarrow> bool" where
  "is_close (DriverCloseDB k h) = True"
| "is_close _ = False"

text \<open>The warning logged when an optional database cannot be used (the format strings).\<close>

fun unable :: "db \<Rightarrow> string" where
  "unable Cve = []"
| "unable Oval = ''Unable to use OvalDB: %s, err: %+v''"
| "unable Gost = ''Unable to use gostDB: %s, err: %+v''"
| "unable Exploit = ''Unable to use exploitDB: %s, err: %+v''"
| "unable Metasploit = ''Unable to use metasploitDB: %s, err: %+v''"

text \<open>The order of the run: the database opened after a given one.\<close>

fun next_db :: "db \<Rightarrow> db" where
  "next_db Cve = Oval"
| "next_db Oval = Gost"
| "next_db Gost = Exploit"
| "next_db Exploit = Metasploit"
| "next_db Metasploit = Metasploit"

text \<open>
  A factory reads the log only to extend it: its result and the events it adds are those
  of a call on the empty log.
\<close>

definition factory_result :: "db \<Rightarrow> env \<Rightarrow> DBClientConf \<Rightarrow> opened" where
  "factory_result k E cnf = fst (factory k E cnf [])"

definition factory_events :: "db \<Rightarrow> env \<Rightarrow> DBClientConf \<Rightarrow> event list" where
  "factory_events k E cnf = snd (factory k E cnf [])"

text \<open>
  The message logged before a driver is called, the path it is called with, and the
  warnings \<open>NewDBClient\<close> logs for the error of an optional factory (none for nil).
\<close>

fun open_msg :: "db \<Rightarrow> string" where
  "open_msg Cve = ''Open cve-dictionary db (%s): %s''"
| "open_msg Oval = ''Open oval-dictionary db (%s): %s''"
| "open_msg Gost = ''Open gost db (%s): %s''"
| "open_msg Exploit = ''Open exploit db (%s): %s''"
| "open_msg Metasploit = ''Open metasploit db (%s): %s''"

definition path_of :: "db \<Rightarrow> DBClientConf \<Rightarrow> string" where
  "path_of k cnf =
    (if Type (conf_of k cnf) = ''sqlite3'' then SQLite3Path (conf_of k cnf) else URL (conf_of k cnf))"

definition warned :: "db \<Rightarrow> DBClientConf \<Rightarrow> error option \<Rightarrow> event list" where
  "warned k cnf err =
    (case err of
       Some e \<Rightarrow> [Warnf (unable k) [ArgS (SQLite3Path (conf_of k cnf)), ArgE e]]
     | None \<Rightarrow> [])"

subsection \<open>Concrete configurations and environments\<close>

definition sqlite3_conf :: "string \<Rightarrow> DictConf" where
  "sqlite3_conf p = \<lparr>Type = ''sqlite3'', URL = [], SQLite3Path = p, IsFetchViaHTTP = False\<rparr>"

definition example_cnf :: DBClientConf where
  "example_cnf =
    \<lparr>CveDictCnf = sqlite3_conf ''/vuls/cve.sqlite3'',
     OvalDictCnf = sqlite3_conf ''/vuls/oval.sqlite3'',
     GostCnf = sqlite3_conf ''/vuls/gost.sqlite3'',
     ExploitCnf = sqlite3_conf ''/vuls/go-exploitdb.sqlite3'',
     MetasploitCnf = sqlite3_conf ''/vuls/go-msfdb.sqlite3'',
     DebugSQL = False\<rparr>"

text \<open>
  An environment in which every file is missing or every file is there (\<open>missing\<close>), the
  CVE, OVAL and gost drivers answer every call with \<open>r1\<close>, \<open>r2\<close> and \<open>r3\<close>, the other
  two drivers open the handles 4 and 5, and closing succeeds.
\<close>

definition example_env :: "bool \<Rightarrow> opened \<Rightarrow> opened \<Rightarrow> opened \<Rightarrow> env" where
  "example_env missing r1 r2 r3 =
    \<lparr>os_IsNotExist = (\<lambda>p. missing),
     cvedb_NewDB = (\<lambda>ty path dbg. r1),
     ovaldb_NewDB = (\<lambda>a ty path dbg. r2),
     gostdb_NewDB = (\<lambda>ty path dbg. r3),
     exploitdb_NewDB = (\<lambda>ty path dbg. (Some 4, False, None)),
     metasploitdb_NewDB = (\<lambda>ty path dbg n. (Some 5, False, None)),
     cvedb_CloseDB = (\<lambda>h. None),
     ovaldb_CloseDB = (\<lambda>h. None)\<rparr>"

definition is_locked :: opened where
  "is_locked = (None, True, Some (DriverError ''database is locked''))"

definition not_a_database :: opened where
  "not_a_database = (None, False, Some (DriverError ''file is not a database''))"

section \<open>Azure blob writer (package reporter)\<close>

text \<open>\<open>[]byte\<close> is a list of characters, as \<open>string\<close> is.\<close>

type_synonym bytes = string

record AzureBlobWriter =
  FormatJSON :: bool
  FormatFullText :: bool
  FormatOneLineText :: bool
  FormatList :: bool
  Gzip :: bool

text \<open>
  What the writer takes from outside the package, as parameters of the model: the
  Azure part of the global configuration (\<open>c.Conf.Azure\<close>), the storage library, \<open>gz\<close>, \<open>json.Marshal\<close>, the
  formatters and the two things read from a scan result (\<open>ScannedAt.Format(time.RFC3339)\<close>
  and \<open>ReportKeyName()\<close>). The type of scan results is the parameter \<open>'r\<close>; a client of the
  storage library is a number.
\<close>

record 'r azure =
  AccountName :: string
  AccountKey :: string
  ContainerName :: string
  storage_NewBasicClient :: "string \<Rightarrow> string \<Rightarrow> error + nat"
  GetBlobService :: "nat \<Rightarrow> nat"
  CreateBlockBlobFromReader :: "nat \<Rightarrow> string \<Rightarrow> string \<Rightarrow> bytes \<Rightarrow> error option"
  gz :: "bytes \<Rightarrow> error + bytes"
  json_Marshal :: "'r \<Rightarrow> error + bytes"
  ScannedAt_RFC3339 :: "'r \<Rightarrow> string"
  ReportKeyName :: "'r \<Rightarrow> string"
  formatOneLineSummary :: "'r list \<Rightarrow> string"
  formatList :: "'r \<Rightarrow> string"
  formatFullPlainText :: "'r \<Rightarrow> string"

text \<open>
  The side effects of the writer: the construction of a storage client (account name and
  key) and the upload of an object (client, container, name, content).
\<close>

datatype azure_event =
    NewBasicClient string string
  | Upload nat string string bytes

definition getBlobClient :: "'r azure \<Rightarrow> azure_event list \<Rightarrow> (error + nat) \<times> azure_event list" where
  "getBlobClient A log =
    (let log' = log @ [NewBasicClient (AccountName A) (AccountKey A)]
     in case storage_NewBasicClient A (AccountName A) (AccountKey A) of
          Inl err \<Rightarrow> (Inl err, log')
        | Inr api \<Rightarrow> (Inr (GetBlobService A api), log'))"

definition createBlockBlob ::
    "'r azure \<Rightarrow> nat \<Rightarrow> string \<Rightarrow> bytes \<Rightarrow> bool \<Rightarrow> azure_event list \<Rightarrow> error option \<times> azure_event list" where
  "createBlockBlob A cli k b gzip log =
    (case (if gzip
           then (case gz A b of Inl err \<Rightarrow> Inl err | Inr b' \<Rightarrow> Inr (b', k @ ''.gz''))
           else Inr (b, k)) of
       Inl err \<Rightarrow> (Some err, log)
     | Inr (b', k') \<Rightarrow>
         (let log' = log @ [Upload cli (ContainerName A) k' b']
          in case CreateBlockBlobFromReader A cli (ContainerName A) k' b' of
               Some err \<Rightarrow>
                 (Some (Errorf ''Failed to upload data to %s/%s, err: %w''
                          [ArgS (ContainerName A), ArgS k', ArgE err]), log')
             | None \<Rightarrow> (None, log')))"

text \<open>The loop \<open>for _, r := range rs\<close> of \<open>Write\<close>; an error ends it.\<close>

fun Write_loop ::
    "AzureBlobWriter \<Rightarrow> 'r azure \<Rightarrow> nat \<Rightarrow> 'r list \<Rightarrow> azure_event list \<Rightarrow> error option \<times> azure_event list" where
  "Write_loop w A cli [] log = (None, log)"
| "Write_loop w A cli (r # rs) log =
    (let key = ReportKeyName A r in
     case (if FormatJSON w
           then (case json_Marshal A r of
                   Inl err \<Rightarrow> (Some (Errorf ''Failed to Marshal to JSON: %w'' [ArgE err]), log)
                 | Inr b \<Rightarrow> createBlockBlob A cli (key @ ''.json'') b (Gzip w) log)
           else (None, log)) of
       (Some err, log1) \<Rightarrow> (Some err, log1)
     | (None, log1) \<Rightarrow>
        (case (if FormatList w
               then createBlockBlob A cli (key @ ''_short.txt'') (formatList A r) (Gzip w) log1
               else (None, log1)) of
           (Some err, log2) \<Rightarrow> (Some err, log2)
         | (None, log2) \<Rightarrow>
            (case (if FormatFullText w
                   then createBlockBlob A cli (key @ ''_full.txt'') (formatFullPlainText A r)
                          (Gzip w) log2
                   else (None, log2)) of
               (Some err, log3) \<Rightarrow> (Some err, log3)
             | (None, log3) \<Rightarrow> Write_loop w A cli rs log3)))"

definition Write ::
    "AzureBlobWriter \<Rightarrow> 'r azure \<Rightarrow> 'r list \<Rightarrow> azure_event list \<Rightarrow> error option \<times> azure_event list" where
  "Write w A rs log =
    (case rs of
       [] \<Rightarrow> (None, log)
     | r0 # _ \<Rightarrow>
         (case getBlobClient A log of
            (Inl err, log1) \<Rightarrow> (Some err, log1)
          | (Inr cli, log1) \<Rightarrow>
              (case (if FormatOneLineText w
                     then createBlockBlob A cli (ScannedAt_RFC3339 A r0 @ ''/summary.txt'')
                            (formatOneLineSummary A rs) (Gzip w) log1
                     else (None, log1)) of
                 (Some err, log2) \<Rightarrow> (Some err, log2)
               | (None, log2) \<Rightarrow> Write_loop w A cli rs log2)))"

section \<open>Lemmas about the factories and the orchestrator\<close>

lemmas factory_defs =
  NewCveDB_def NewCveDB_open_def NewOvalDB_def NewOvalDB_open_def NewGostDB_def NewGostDB_open_def
  NewExploitDB_def NewExploitDB_open_def NewMetasploitDB_def NewMetasploitDB_open_def

lemmas example_defs =
  example_cnf_def sqlite3_conf_def example_env_def is_locked_def not_a_database_def

lemma factory_fst: "fst (factory k E cnf log) = fst (factory k E cnf [])"
  by (cases k) (simp_all add: factory_defs Let_def split: prod.splits option.splits)

lemma factory_snd: "snd (factory k E cnf log) = log @ snd (factory k E cnf [])"
  by (cases k) (simp_all add: factory_defs Let_def split: prod.splits option.splits)

lemma factory_eq: "factory k E cnf log = (factory_result k E cnf, log @ factory_events k E cnf)"
  unfolding factory_result_def factory_events_def
  using factory_fst [of k E cnf log] factory_snd [of k E cnf log]
  by (simp add: prod_eq_iff)

lemmas factory_eqs =
  factory_eq [of Cve, simplified] factory_eq [of Oval, simplified] factory_eq [of Gost, simplified]
  factory_eq [of Exploit, simplified] factory_eq [of Metasploit, simplified]

text \<open>The events of a factory, whatever the driver answers.\<close>

lemma factory_trace:
  "snd (factory k E cnf []) =
      (if IsFetchViaHTTP (conf_of k cnf) then []
       else (if k = Cve then [Debugf ''open cve-dictionary db (%s)'' [ArgS (Type (conf_of k cnf))]] else [])
          @ (if Type (conf_of k cnf) = ''sqlite3'' then [Stat (SQLite3Path (conf_of k cnf))] else [])
          @ (if Type (conf_of k cnf) = ''sqlite3'' \<and> os_IsNotExist E (SQLite3Path (conf_of k cnf))
             then [Warnf (not_found k) [ArgS (SQLite3Path (conf_of k cnf))]]
             else [Debugf (open_msg k) [ArgS (Type (conf_of k cnf)), ArgS (path_of k cnf)],
                   DriverNewDB k (Type (conf_of k cnf)) (path_of k cnf) (DebugSQL cnf)]))"
  by (cases k) (simp_all add: factory_defs Let_def path_of_def split: prod.splits option.splits)

lemma events_Returned [simp]: "Returned k' r \<notin> set (factory_events k E cnf)"
  unfolding factory_events_def
  by (cases k) (simp_all add: factory_defs Let_def split: prod.splits option.splits)

lemma events_Warnf_unable [simp]: "Warnf (unable k') as \<notin> set (factory_events k E cnf)"
  unfolding factory_events_def
  by (cases k; cases k') (simp_all add: factory_defs Let_def cvedb_not_found_def ovaldb_not_found_def
      gostdb_not_found_def exploitdb_not_found_def msfdb_not_found_def split: prod.splits option.splits)

lemma events_close [simp]: "filter is_close (factory_events k E cnf) = []"
  unfolding factory_events_def
  by (cases k) (simp_all add: factory_defs Let_def split: prod.splits option.splits)

lemma events_driver: "DriverNewDB k' ty p dbg \<in> set (factory_events k E cnf) \<Longrightarrow> k' = k"
  unfolding factory_events_def
  by (cases k) (simp_all add: factory_defs Let_def split: prod.splits option.splits if_splits)

text \<open>A factory that returns an error returns no driver.\<close>

lemma result_err: "factory_result k E cnf = (d, l, Some e) \<Longrightarrow> d = None"
  unfolding factory_result_def
  by (cases k) (simp_all add: factory_defs Let_def split: prod.splits option.splits if_splits)

lemma five_results:
  obtains d1 l1 e1 d2 l2 e2 d3 l3 e3 d4 l4 e4 d5 l5 e5 where
    "factory_result Cve E cnf = (d1, l1, e1)"
    "factory_result Oval E cnf = (d2, l2, e2)"
    "factory_result Gost E cnf = (d3, l3, e3)"
    "factory_result Exploit E cnf = (d4, l4, e4)"
    "factory_result Metasploit E cnf = (d5, l5, e5)"
  by (metis prod_cases3)

lemma warned_Returned [simp]: "Returned k' r \<notin> set (warned k cnf err)"
  by (simp add: warned_def split: option.splits)

lemma warned_close [simp]: "filter is_close (warned k cnf err) = []"
  by (simp add: warned_def split: option.splits)

lemma warned_Some [simp]:
  "warned k cnf (Some e) = [Warnf (unable k) [ArgS (SQLite3Path (conf_of k cnf)), ArgE e]]"
  by (simp add: warned_def)

lemma warned_None [simp]: "warned k cnf None = []"
  by (simp add: warned_def)

lemma all_db: "(\<forall>k. P k) \<longleftrightarrow> P Cve \<and> P Oval \<and> P Gost \<and> P Exploit \<and> P Metasploit"
  by (metis db.exhaust)

text \<open>
  The run in terms of the five results: the exits of \<open>NewDBClient\<close> in the order of the
  source, each with the log it leaves.
\<close>

lemma run_normal_form:
  fixes log :: "event list"
  assumes "factory_result Cve E cnf = (d1, l1, e1)"
    "factory_result Oval E cnf = (d2, l2, e2)"
    "factory_result Gost E cnf = (d3, l3, e3)"
    "factory_result Exploit E cnf = (d4, l4, e4)"
    "factory_result Metasploit E cnf = (d5, l5, e5)"
  defines "T1 \<equiv> log @ factory_events Cve E cnf @ [Returned Cve (d1, l1, e1)]"
  defines "T2 \<equiv> T1 @ factory_events Oval E cnf @ [Returned Oval (d2, l2, e2)]"
  defines "T3 \<equiv> T2 @ warned Oval cnf e2 @ factory_events Gost E cnf @ [Returned Gost (d3, l3, e3)]"
  defines "T4 \<equiv> T3 @ warned Gost cnf e3 @ factory_events Exploit E cnf @ [Returned Exploit (d4, l4, e4)]"
  defines "T5 \<equiv> T4 @ warned Exploit cnf e4 @ factory_events Metasploit E cnf
                   @ [Returned Metasploit (d5, l5, e5)]"
  shows "NewDBClient E cnf log =
    (if l1 then ((None, True, Some (Errorf ''CveDB is locked: %s'' [ArgS (SQLite3Path (OvalDictCnf cnf))])), T1)
     else if e1 \<noteq> None then ((None, False, e1), T1)
     else if l2 then ((None, True, Some (Errorf ''OvalDB is locked: %s'' [ArgS (SQLite3Path (OvalDictCnf cnf))])), T2)
     else if l3 then ((None, True, Some (Errorf ''gostDB is locked: %s'' [ArgS (SQLite3Path (GostCnf cnf))])), T3)
     else if l4 then ((None, True, Some (Errorf ''exploitDB is locked: %s'' [ArgS (SQLite3Path (ExploitCnf cnf))])), T4)
     else if l5 then ((None, True, Some (Errorf ''metasploitDB is locked: %s'' [ArgS (SQLite3Path (MetasploitCnf cnf))])), T5)
     else ((Some \<lparr>CveDB = d1, OvalDB = d2, GostDB = d3, ExploitDB = d4, MetasploitDB = d5\<rparr>, False, None),
           T5 @ warned Metasploit cnf e5))"
  unfolding T1_def T2_def T3_def T4_def T5_def
  by (simp add: NewDBClient_def factory_eqs assms(1-5) Let_def warned_def split: option.splits)

section \<open>Properties of the orchestrator\<close>

text \<open>
  C1 (as amended). \<open>NewDBClient\<close> has no release step: it makes no call of a driver's
  \<open>CloseDB\<close> at all, on no path, and whenever it returns an error it returns a nil
  bundle. So a handle opened before an aborting outcome is neither closed nor handed
  to the caller.
\<close>

theorem NewDBClient_closes_nothing:
  "filter is_close (snd (NewDBClient E cnf log)) = filter is_close log
   \<and> (\<forall>c l e. fst (NewDBClient E cnf log) = (c, l, Some e) \<longrightarrow> c = None)"
proof -
  obtain d1 l1 e1 d2 l2 e2 d3 l3 e3 d4 l4 e4 d5 l5 e5 where r:
    "factory_result Cve E cnf = (d1, l1, e1)"
    "factory_result Oval E cnf = (d2, l2, e2)"
    "factory_result Gost E cnf = (d3, l3, e3)"
    "factory_result Exploit E cnf = (d4, l4, e4)"
    "factory_result Metasploit E cnf = (d5, l5, e5)"
    by (rule five_results)
  show ?thesis
    by (simp add: run_normal_form [OF r])
qed

theorem NewDBClient_closes_nothing_witness:
  "filter is_close
     (snd (NewDBClient (example_env False (Some 1, False, None) is_locked (Some 3, False, None))
             example_cnf [])) = []
   \<and> fst (NewDBClient (example_env False (Some 1, False, None) is_locked (Some 3, False, None))
             example_cnf []) =
       (None, True, Some (Errorf ''OvalDB is locked: %s'' [ArgS ''/vuls/oval.sqlite3'']))"
  using NewDBClient_closes_nothing
    [of "example_env False (Some 1, False, None) is_locked (Some 3, False, None)" example_cnf "[]"]
  by (simp add: NewDBClient_def factory_defs example_defs Let_def)

text \<open>
  C1 as stated fails. All five databases are sqlite3 files that exist; the CVE driver
  opens handle 1, then the OVAL driver reports a lock. The run ends with the error of
  the locked OVAL database, and its log, given in full, has the opening of handle 1 and
  no call of \<open>CloseDB\<close> on it.
\<close>

theorem NewDBClient_leak_counterexample:
  "NewDBClient (example_env False (Some 1, False, None) is_locked (Some 3, False, None)) example_cnf [] =
     ((None, True, Some (Errorf ''OvalDB is locked: %s'' [ArgS ''/vuls/oval.sqlite3''])),
      [Debugf ''open cve-dictionary db (%s)'' [ArgS ''sqlite3''],
       Stat ''/vuls/cve.sqlite3'',
       Debugf ''Open cve-dictionary db (%s): %s'' [ArgS ''sqlite3'', ArgS ''/vuls/cve.sqlite3''],
       DriverNewDB Cve ''sqlite3'' ''/vuls/cve.sqlite3'' False,
       Returned Cve (Some 1, False, None),
       Stat ''/vuls/oval.sqlite3'',
       Debugf ''Open oval-dictionary db (%s): %s'' [ArgS ''sqlite3'', ArgS ''/vuls/oval.sqlite3''],
       DriverNewDB Oval ''sqlite3'' ''/vuls/oval.sqlite3'' False,
       Returned Oval (None, True,
         Some (Errorf ''Failed to new OVAL DB. err: %w'' [ArgE (DriverError ''database is locked'')]))])
   \<and> DriverCloseDB Cve 1 \<notin>
       set (snd (NewDBClient (example_env False (Some 1, False, None) is_locked (Some 3, False, None))
                   example_cnf []))"
  by (simp add: NewDBClient_def factory_defs example_defs Let_def)

text \<open>
  C2. The error for a locked database should name that database and its own path. For
  the CVE dictionary the source formats the message with \<open>cnf.OvalDictCnf.SQLite3Path\<close>:
  with the CVE file at \<open>/vuls/cve.sqlite3\<close> locked, the error returned names
  \<open>/vuls/oval.sqlite3\<close>.
\<close>

theorem cve_locked_names_oval_path:
  "SQLite3Path (CveDictCnf example_cnf) = ''/vuls/cve.sqlite3''
   \<and> fst (NewDBClient (example_env False is_locked (Some 2, False, None) (Some 3, False, None))
            example_cnf []) =
       (None, True, Some (Errorf ''CveDB is locked: %s'' [ArgS ''/vuls/oval.sqlite3'']))"
  by (simp add: NewDBClient_def factory_defs example_defs Let_def)

text \<open>
  C3. Whichever of the five factories returns locked in a run, the run aborts:
  \<open>NewDBClient\<close> returns a nil bundle, locked = true and a non-nil error.
\<close>

theorem locked_aborts:
  assumes "Returned k (d, True, e) \<in> set (snd (NewDBClient E cnf []))"
  shows "\<exists>err. fst (NewDBClient E cnf []) = (None, True, Some err)"
proof -
  obtain d1 l1 e1 d2 l2 e2 d3 l3 e3 d4 l4 e4 d5 l5 e5 where r:
    "factory_result Cve E cnf = (d1, l1, e1)"
    "factory_result Oval E cnf = (d2, l2, e2)"
    "factory_result Gost E cnf = (d3, l3, e3)"
    "factory_result Exploit E cnf = (d4, l4, e4)"
    "factory_result Metasploit E cnf = (d5, l5, e5)"
    by (rule five_results)
  show ?thesis
    using assms
    by (simp add: run_normal_form [OF r] split: if_splits)
qed

theorem locked_aborts_witness:
  "Returned Gost (None, True,
       Some (Errorf ''gostDB is locked. err: %w'' [ArgE (DriverError ''database is locked'')]))
     \<in> set (snd (NewDBClient (example_env False (Some 1, False, None) (Some 2, False, None) is_locked)
                   example_cnf []))
   \<and> (\<exists>err. fst (NewDBClient (example_env False (Some 1, False, None) (Some 2, False, None) is_locked)
                   example_cnf []) = (None, True, Some err))"
proof -
  have h: "Returned Gost (None, True,
       Some (Errorf ''gostDB is locked. err: %w'' [ArgE (DriverError ''database is locked'')]))
     \<in> set (snd (NewDBClient (example_env False (Some 1, False, None) (Some 2, False, None) is_locked)
                   example_cnf []))"
    by (simp add: NewDBClient_def factory_defs example_defs Let_def)
  from locked_aborts [OF h] h show ?thesis by simp
qed

text \<open>
  C4 (as amended). For each of the five factories: when the driver is called and reports
  locked = true with a non-nil error, the factory returns a nil driver, locked = true
  and a non-nil error; when the driver reports locked = true with a nil error, the
  factory returns the driver with locked = false and a nil error (the flag is read on
  the error path only).
\<close>

theorem factory_locked:
  assumes "DriverNewDB k ty path dbg \<in> set (snd (factory k E cnf []))"
    and "driver_NewDB E k ty path dbg = (d, True, e)"
  shows "(e \<noteq> None \<longrightarrow> (\<exists>err. fst (factory k E cnf []) = (None, True, Some err)))
       \<and> (e = None \<longrightarrow> fst (factory k E cnf []) = (d, False, None))"
proof -
  from assms(1) have called: "ty = Type (conf_of k cnf) \<and> path = path_of k cnf \<and> dbg = DebugSQL cnf
      \<and> \<not> IsFetchViaHTTP (conf_of k cnf)
      \<and> \<not> (Type (conf_of k cnf) = ''sqlite3'' \<and> os_IsNotExist E (SQLite3Path (conf_of k cnf)))"
    unfolding factory_trace by (cases k) (simp_all split: if_splits)
  with assms(2) show ?thesis
    by (cases k) (auto simp add: factory_defs Let_def path_of_def)
qed

theorem factory_locked_witness:
  "DriverNewDB Oval ''sqlite3'' ''/vuls/oval.sqlite3'' False
     \<in> set (snd (factory Oval (example_env False (Some 1, False, None) is_locked (Some 3, False, None))
                   example_cnf []))
   \<and> driver_NewDB (example_env False (Some 1, False, None) is_locked (Some 3, False, None))
        Oval ''sqlite3'' ''/vuls/oval.sqlite3'' False =
        (None, True, Some (DriverError ''database is locked''))
   \<and> (\<exists>err. fst (factory Oval (example_env False (Some 1, False, None) is_locked (Some 3, False, None))
                   example_cnf []) = (None, True, Some err))"
proof -
  have h1: "DriverNewDB Oval ''sqlite3'' ''/vuls/oval.sqlite3'' False
     \<in> set (snd (factory Oval (example_env False (Some 1, False, None) is_locked (Some 3, False, None))
                   example_cnf []))"
    by (simp add: factory_defs example_defs Let_def)
  have h2: "driver_NewDB (example_env False (Some 1, False, None) is_locked (Some 3, False, None))
        Oval ''sqlite3'' ''/vuls/oval.sqlite3'' False =
        (None, True, Some (DriverError ''database is locked''))"
    by (simp add: example_defs)
  from factory_locked [OF h1 h2] h1 h2 show ?thesis by simp
qed

text \<open>
  C4 as stated fails. The CVE driver answers handle 1, locked = true, nil error; the
  factory returns handle 1 with locked = false and a nil error, an opened database.
\<close>

theorem factory_lock_dropped_counterexample:
  "driver_NewDB (example_env False (Some 1, True, None) (Some 2, False, None) (Some 3, False, None))
     Cve ''sqlite3'' ''/vuls/cve.sqlite3'' False = (Some 1, True, None)
   \<and> factory Cve (example_env False (Some 1, True, None) (Some 2, False, None) (Some 3, False, None))
       example_cnf [] =
       ((Some 1, False, None),
        [Debugf ''open cve-dictionary db (%s)'' [ArgS ''sqlite3''],
         Stat ''/vuls/cve.sqlite3'',
         Debugf ''Open cve-dictionary db (%s): %s'' [ArgS ''sqlite3'', ArgS ''/vuls/cve.sqlite3''],
         DriverNewDB Cve ''sqlite3'' ''/vuls/cve.sqlite3'' False])"
  by (simp add: factory_defs example_defs Let_def)

text \<open>
  C5. When \<open>NewCveDB\<close> returns an error without the locked flag, \<open>NewDBClient\<close> returns a
  nil bundle and that error, and the run ends there: its log is the log of \<open>NewCveDB\<close>
  and the record of its result, so no factory and no driver of an optional database is
  called.
\<close>

theorem cve_open_failed_aborts:
  assumes "fst (NewCveDB E cnf []) = (d, False, Some e)"
  shows "NewDBClient E cnf [] =
           ((None, False, Some e), snd (NewCveDB E cnf []) @ [Returned Cve (d, False, Some e)])
       \<and> (\<forall>k r. k \<noteq> Cve \<longrightarrow> Returned k r \<notin> set (snd (NewDBClient E cnf [])))
       \<and> (\<forall>k ty p dbg. k \<noteq> Cve \<longrightarrow> DriverNewDB k ty p dbg \<notin> set (snd (NewDBClient E cnf [])))"
proof -
  from assms have r: "factory_result Cve E cnf = (d, False, Some e)"
    by (simp add: factory_result_def)
  have ev: "snd (NewCveDB E cnf []) = factory_events Cve E cnf"
    by (simp add: factory_events_def)
  have run: "NewDBClient E cnf [] =
      ((None, False, Some e), factory_events Cve E cnf @ [Returned Cve (d, False, Some e)])"
    by (simp add: NewDBClient_def factory_eqs r)
  show ?thesis
    using events_driver [of _ _ _ _ Cve E cnf]
    by (auto simp add: run ev)
qed

theorem cve_open_failed_aborts_witness:
  "fst (NewCveDB (example_env False not_a_database (Some 2, False, None) (Some 3, False, None))
          example_cnf []) =
     (None, False,
      Some (Errorf ''Failed to init CVE DB. err: %w, path: %s''
              [ArgE (DriverError ''file is not a database''), ArgS ''/vuls/cve.sqlite3'']))
   \<and> fst (NewDBClient (example_env False not_a_database (Some 2, False, None) (Some 3, False, None))
          example_cnf []) =
     (None, False,
      Some (Errorf ''Failed to init CVE DB. err: %w, path: %s''
              [ArgE (DriverError ''file is not a database''), ArgS ''/vuls/cve.sqlite3'']))
   \<and> Stat ''/vuls/oval.sqlite3''
       \<notin> set (snd (NewDBClient (example_env False not_a_database (Some 2, False, None) (Some 3, False, None))
          example_cnf []))"
proof -
  have h: "fst (NewCveDB (example_env False not_a_database (Some 2, False, None) (Some 3, False, None))
          example_cnf []) =
     (None, False,
      Some (Errorf ''Failed to init CVE DB. err: %w, path: %s''
              [ArgE (DriverError ''file is not a database''), ArgS ''/vuls/cve.sqlite3'']))"
    by (simp add: factory_defs example_defs Let_def)
  have t: "Stat ''/vuls/oval.sqlite3''
       \<notin> set (snd (NewCveDB (example_env False not_a_database (Some 2, False, None) (Some 3, False, None))
          example_cnf []))"
    by (simp add: factory_defs example_defs Let_def)
  from cve_open_failed_aborts [OF h] h t show ?thesis by simp
qed

text \<open>
  C6 (as amended). When the factory of an optional database returns an error without the
  locked flag, that error does not end the run: the warning for that database is logged,
  the next database is tried, and, if no factory returns locked in the run, all five
  factories are called and the result is a bundle with a nil error whose slot for that
  database is nil.
\<close>

theorem optional_open_failed:
  assumes "k \<noteq> Cve"
    and "Returned k (d, False, Some e) \<in> set (snd (NewDBClient E cnf []))"
  shows "Warnf (unable k) [ArgS (SQLite3Path (conf_of k cnf)), ArgE e]
           \<in> set (snd (NewDBClient E cnf []))
       \<and> (k \<noteq> Metasploit \<longrightarrow> (\<exists>r. Returned (next_db k) r \<in> set (snd (NewDBClient E cnf []))))
       \<and> ((\<forall>k' d' e'. Returned k' (d', True, e') \<notin> set (snd (NewDBClient E cnf []))) \<longrightarrow>
            (\<exists>c. fst (NewDBClient E cnf []) = (Some c, False, None) \<and> slot k c = None
                 \<and> (\<forall>k'. \<exists>r. Returned k' r \<in> set (snd (NewDBClient E cnf [])))))"
proof -
  obtain d1 l1 e1 d2 l2 e2 d3 l3 e3 d4 l4 e4 d5 l5 e5 where r:
    "factory_result Cve E cnf = (d1, l1, e1)"
    "factory_result Oval E cnf = (d2, l2, e2)"
    "factory_result Gost E cnf = (d3, l3, e3)"
    "factory_result Exploit E cnf = (d4, l4, e4)"
    "factory_result Metasploit E cnf = (d5, l5, e5)"
    by (rule five_results)
  note nf = run_normal_form [OF r, of "[]"]
  have nil: "\<And>y. e2 = Some y \<Longrightarrow> d2 = None" "\<And>y. e3 = Some y \<Longrightarrow> d3 = None"
    "\<And>y. e4 = Some y \<Longrightarrow> d4 = None" "\<And>y. e5 = Some y \<Longrightarrow> d5 = None"
    using r result_err by blast+
  have warn: "Warnf (unable k) [ArgS (SQLite3Path (conf_of k cnf)), ArgE e]
           \<in> set (snd (NewDBClient E cnf []))"
    using assms by (cases k) (auto simp add: nf split: if_splits)
  have nxt: "\<exists>r. Returned (next_db k) r \<in> set (snd (NewDBClient E cnf []))" if "k \<noteq> Metasploit"
    using assms that by (cases k) (auto simp add: nf split: if_splits)
  have fin: "\<exists>c. fst (NewDBClient E cnf []) = (Some c, False, None) \<and> slot k c = None
                 \<and> (\<forall>k'. \<exists>r. Returned k' r \<in> set (snd (NewDBClient E cnf [])))"
    if free: "\<forall>k' d' e'. Returned k' (d', True, e') \<notin> set (snd (NewDBClient E cnf []))"
  proof -
    from assms have e1: "\<not> l1 \<and> e1 = None"
      by (cases k) (auto simp add: nf split: if_splits)
    have l2: "\<not> l2"
      using free [rule_format, of Oval d2 e2] e1 by (simp add: nf split: if_splits)
    have l3: "\<not> l3"
      using free [rule_format, of Gost d3 e3] e1 l2 by (simp add: nf split: if_splits)
    have l4: "\<not> l4"
      using free [rule_format, of Exploit d4 e4] e1 l2 l3 by (simp add: nf split: if_splits)
    have l5: "\<not> l5"
      using free [rule_format, of Metasploit d5 e5] e1 l2 l3 l4 by (simp add: nf split: if_splits)
    have slot: "slot k \<lparr>CveDB = d1, OvalDB = d2, GostDB = d3, ExploitDB = d4, MetasploitDB = d5\<rparr> = None"
      using assms nil by (cases k) (auto simp add: nf e1 l2 l3 l4 l5)
    have "\<forall>k'. \<exists>r. Returned k' r \<in> set (snd (NewDBClient E cnf []))"
      unfolding all_db by (simp add: nf e1 l2 l3 l4 l5)
    with slot show ?thesis by (simp add: nf e1 l2 l3 l4 l5)
  qed
  from warn nxt fin show ?thesis by blast
qed

theorem optional_open_failed_witness:
  "Oval \<noteq> Cve
   \<and> Returned Oval (None, False,
       Some (Errorf ''Failed to new OVAL DB. err: %w'' [ArgE (DriverError ''file is not a database'')]))
     \<in> set (snd (NewDBClient (example_env False (Some 1, False, None) not_a_database (Some 3, False, None))
                   example_cnf []))
   \<and> Warnf ''Unable to use OvalDB: %s, err: %+v''
        [ArgS ''/vuls/oval.sqlite3'',
         ArgE (Errorf ''Failed to new OVAL DB. err: %w'' [ArgE (DriverError ''file is not a database'')])]
     \<in> set (snd (NewDBClient (example_env False (Some 1, False, None) not_a_database (Some 3, False, None))
                   example_cnf []))
   \<and> fst (NewDBClient (example_env False (Some 1, False, None) not_a_database (Some 3, False, None))
                   example_cnf []) =
       (Some \<lparr>CveDB = Some 1, OvalDB = None, GostDB = Some 3, ExploitDB = Some 4, MetasploitDB = Some 5\<rparr>,
        False, None)"
proof -
  have h1: "Oval \<noteq> Cve" by simp
  have h2: "Returned Oval (None, False,
       Some (Errorf ''Failed to new OVAL DB. err: %w'' [ArgE (DriverError ''file is not a database'')]))
     \<in> set (snd (NewDBClient (example_env False (Some 1, False, None) not_a_database (Some 3, False, None))
                   example_cnf []))"
    by (simp add: NewDBClient_def factory_defs example_defs Let_def)
  have h3: "fst (NewDBClient (example_env False (Some 1, False, None) not_a_database (Some 3, False, None))
                   example_cnf []) =
       (Some \<lparr>CveDB = Some 1, OvalDB = None, GostDB = Some 3, ExploitDB = Some 4, MetasploitDB = Some 5\<rparr>,
        False, None)"
    by (simp add: NewDBClient_def factory_defs example_defs Let_def)
  from optional_open_failed [OF h1 h2] h2 h3 show ?thesis
    by (simp add: example_defs)
qed

text \<open>
  C6 as stated fails. The OVAL factory returns an error without the locked flag, then
  the gost driver reports a lock: the run ends with the error of the locked gost
  database and no bundle, and the exploit database is never tried.
\<close>

theorem optional_failed_then_locked_counterexample:
  "Returned Oval (None, False,
       Some (Errorf ''Failed to new OVAL DB. err: %w'' [ArgE (DriverError ''file is not a database'')]))
     \<in> set (snd (NewDBClient (example_env False (Some 1, False, None) not_a_database is_locked)
                   example_cnf []))
   \<and> fst (NewDBClient (example_env False (Some 1, False, None) not_a_database is_locked)
            example_cnf []) =
       (None, True, Some (Errorf ''gostDB is locked: %s'' [ArgS ''/vuls/gost.sqlite3'']))
   \<and> DriverNewDB Exploit ''sqlite3'' ''/vuls/go-exploitdb.sqlite3'' False
     \<notin> set (snd (NewDBClient (example_env False (Some 1, False, None) not_a_database is_locked)
                   example_cnf []))"
  by (simp add: NewDBClient_def factory_defs example_defs Let_def)

section \<open>Properties of closing and of the factories\<close>

text \<open>
  C7. \<open>CloseDB\<close> should close every slot that holds a driver. On a bundle with all five
  slots filled it calls \<open>CloseDB\<close> on the CVE and the OVAL driver and on nothing else:
  the gost, exploit and metasploit drivers stay open (the source marks them with a TODO).
\<close>

theorem CloseDB_leaves_three_open:
  "snd (CloseDB E \<lparr>CveDB = Some 1, OvalDB = Some 2, GostDB = Some 3, ExploitDB = Some 4,
                   MetasploitDB = Some 5\<rparr> log) =
     log @ [DriverCloseDB Cve 1, DriverCloseDB Oval 2]"
  by (simp add: CloseDB_def split: option.splits)

text \<open>
  C8. For each of the five databases, the CVE dictionary as the other four: if it is
  configured as a sqlite3 file (and not fetched via HTTP) and the file does not exist,
  the factory returns a nil driver, locked = false and a nil error, logs the advisory
  for that database and calls no driver.
\<close>

theorem missing_file_absent:
  assumes "Type (conf_of k cnf) = ''sqlite3''"
    and "\<not> IsFetchViaHTTP (conf_of k cnf)"
    and "os_IsNotExist E (SQLite3Path (conf_of k cnf))"
  shows "fst (factory k E cnf log) = (None, False, None)
       \<and> Warnf (not_found k) [ArgS (SQLite3Path (conf_of k cnf))] \<in> set (snd (factory k E cnf []))
       \<and> (\<forall>k' ty p dbg. DriverNewDB k' ty p dbg \<notin> set (snd (factory k E cnf [])))"
proof -
  have res: "fst (factory k E cnf log) = (None, False, None)"
    using assms by (cases k) (simp_all add: factory_defs Let_def)
  have ev: "snd (factory k E cnf []) =
      (if k = Cve then [Debugf ''open cve-dictionary db (%s)'' [ArgS ''sqlite3'']] else [])
      @ [Stat (SQLite3Path (conf_of k cnf)), Warnf (not_found k) [ArgS (SQLite3Path (conf_of k cnf))]]"
    using assms by (auto simp add: factory_trace)
  show ?thesis
    unfolding ev using res by simp
qed

theorem missing_file_absent_witness:
  "Type (conf_of Cve example_cnf) = ''sqlite3''
   \<and> \<not> IsFetchViaHTTP (conf_of Cve example_cnf)
   \<and> os_IsNotExist (example_env True (Some 1, False, None) (Some 2, False, None) (Some 3, False, None))
        (SQLite3Path (conf_of Cve example_cnf))
   \<and> factory Cve (example_env True (Some 1, False, None) (Some 2, False, None) (Some 3, False, None))
        example_cnf [] =
       ((None, False, None),
        [Debugf ''open cve-dictionary db (%s)'' [ArgS ''sqlite3''],
         Stat ''/vuls/cve.sqlite3'',
         Warnf cvedb_not_found [ArgS ''/vuls/cve.sqlite3'']])"
proof -
  have h1: "Type (conf_of Cve example_cnf) = ''sqlite3''"
    by (simp add: example_defs)
  have h2: "\<not> IsFetchViaHTTP (conf_of Cve example_cnf)"
    by (simp add: example_defs)
  have h3: "os_IsNotExist (example_env True (Some 1, False, None) (Some 2, False, None) (Some 3, False, None))
        (SQLite3Path (conf_of Cve example_cnf))"
    by (simp add: example_defs)
  from missing_file_absent [OF h1 h2 h3, of "[]"] h1 h2 h3 show ?thesis
    by (simp add: factory_defs example_defs Let_def)
qed

text \<open>
  C9 (as amended). A second call of \<open>CloseDB\<close> on the same bundle repeats the close
  attempts of the first: after the log of the first call it calls \<open>CloseDB\<close> on the CVE
  driver and on the OVAL driver again, whenever they are not nil. It makes no attempt
  only when both are nil.
\<close>

theorem CloseDB_twice:
  "snd (CloseDB E d (snd (CloseDB E d log))) =
     snd (CloseDB E d log)
     @ (case CveDB d of None \<Rightarrow> [] | Some h \<Rightarrow> [DriverCloseDB Cve h])
     @ (case OvalDB d of None \<Rightarrow> [] | Some h \<Rightarrow> [DriverCloseDB Oval h])"
  by (simp add: CloseDB_def split: option.splits)

text \<open>
  C9 as stated fails. On a bundle with the CVE driver 1 and the OVAL driver 2 the first
  call closes both; the second call, made on the log of the first, closes both again.
\<close>

theorem CloseDB_twice_counterexample:
  "snd (CloseDB (example_env False (Some 1, False, None) (Some 2, False, None) (Some 3, False, None))
          \<lparr>CveDB = Some 1, OvalDB = Some 2, GostDB = None, ExploitDB = None, MetasploitDB = None\<rparr> []) =
     [DriverCloseDB Cve 1, DriverCloseDB Oval 2]
   \<and> snd (CloseDB (example_env False (Some 1, False, None) (Some 2, False, None) (Some 3, False, None))
          \<lparr>CveDB = Some 1, OvalDB = Some 2, GostDB = None, ExploitDB = None, MetasploitDB = None\<rparr>
          [DriverCloseDB Cve 1, DriverCloseDB Oval 2]) =
     [DriverCloseDB Cve 1, DriverCloseDB Oval 2, DriverCloseDB Cve 1, DriverCloseDB Oval 2]"
  by (simp add: CloseDB_def example_defs)

section \<open>Properties of the writer\<close>

text \<open>
  C10. For the empty sequence of scan results \<open>Write\<close> returns nil and has no side effect:
  no storage client is constructed and nothing is uploaded, whatever the format flags
  and the Gzip flag are.
\<close>

theorem Write_empty: "Write w A [] log = (None, log)"
  by (simp add: Write_def)

end
